theory Spec2Isabelle
  imports Complex_Main "HOL-Library.AList"
begin

section \<open>Numbers and rounding\<close>

text \<open>
  Amounts are Python floats in the source. They are modelled as exact rationals: the
  binary representation error of a float is outside the model, everything else
  (the order of the operations, the guards, the places where a value is rounded) follows
  the source. \<open>py_round x nd\<close> is Python's \<open>round(x, nd)\<close>: the nearest multiple of
  \<open>10 ^ -nd\<close>, a tie going to the even neighbour.
\<close>

definition py_round :: "rat \<Rightarrow> nat \<Rightarrow> rat" where
  "py_round x nd =
     (let s = 10 ^ nd;
          y = x * s;
          f = \<lfloor>y\<rfloor>;
          d = y - of_int f
      in of_int (if d < 1 / 2 then f
                 else if 1 / 2 < d then f + 1
                 else if even f then f else f + 1) / s)"

section \<open>Invoice lines and totals (services/facturacion.py)\<close>

record LineaFactura =
  concepto :: string
  cantidad :: rat
  precio_unitario :: rat
  descuento :: rat
  tipo_iva :: string
  base_imponible :: rat
  cuota_iva :: rat
  total_linea :: rat

text \<open>The dictionary \<open>iva_porcentaje\<close> of \<open>calcular_linea_factura\<close>.\<close>

definition iva_porcentaje :: "(string \<times> rat) list" where
  "iva_porcentaje =
     [(''21'', 21 / 100), (''10'', 10 / 100), (''4'', 4 / 100), (''0'', 0), (''exento'', 0)]"

definition calcular_linea_factura ::
  "string \<Rightarrow> rat \<Rightarrow> rat \<Rightarrow> string \<Rightarrow> rat \<Rightarrow> LineaFactura" where
  "calcular_linea_factura c q p t d =
     (let subtotal_linea = q * p;
          importe_descuento = (if 0 < d then subtotal_linea * (d / 100) else 0);
          base = subtotal_linea - importe_descuento;
          cuota = base * (case map_of iva_porcentaje t of Some r \<Rightarrow> r | None \<Rightarrow> 21 / 100);
          total = base + cuota
      in \<lparr>concepto = c, cantidad = q, precio_unitario = p, descuento = d, tipo_iva = t,
          base_imponible = py_round base 2, cuota_iva = py_round cuota 2,
          total_linea = py_round total 2\<rparr>)"

record Totales =
  subtotal :: rat
  total_iva :: rat
  total_factura :: rat

definition calcular_totales_factura :: "LineaFactura list \<Rightarrow> Totales" where
  "calcular_totales_factura lineas =
     \<lparr>subtotal = py_round (sum_list (map base_imponible lineas)) 2,
      total_iva = py_round (sum_list (map cuota_iva lineas)) 2,
      total_factura = py_round (sum_list (map total_linea lineas)) 2\<rparr>"


section \<open>Invoice numbers (services/facturacion.py, routes/facturas.py)\<close>

text \<open>
  Python's \<open>str\<close> of an integer, the format \<open>:04d\<close> (zero padding to width 4, the
  sign counted in the width), \<open>str.split\<close> on a one-character separator and \<open>int\<close> of
  a string (surrounding white space, an optional sign, decimal digits with single
  underscores between them) are written out for 8-bit characters.
\<close>

definition digit_char :: "nat \<Rightarrow> char" where
  "digit_char d = ''0123456789'' ! d"

definition is_digit :: "char \<Rightarrow> bool" where
  "is_digit c = (c \<in> set ''0123456789'')"

definition digit_val :: "char \<Rightarrow> nat" where
  "digit_val c = of_char c - 48"

fun digits_nat :: "nat \<Rightarrow> string" where
  "digits_nat n = (if n < 10 then [digit_char n] else digits_nat (n div 10) @ [digit_char (n mod 10)])"

declare digits_nat.simps [simp del]

definition py_str_int :: "int \<Rightarrow> string" where
  "py_str_int i = (if i < 0 then CHR ''-'' # digits_nat (nat (- i)) else digits_nat (nat i))"

definition zfill :: "nat \<Rightarrow> string \<Rightarrow> string" where
  "zfill w s = replicate (w - length s) CHR ''0'' @ s"

definition format_04d :: "int \<Rightarrow> string" where
  "format_04d i =
     (if i < 0 then CHR ''-'' # zfill 3 (digits_nat (nat (- i))) else zfill 4 (digits_nat (nat i)))"

text \<open>\<open>FacturacionService.generar_numero_factura\<close>.\<close>

definition generar_numero_factura :: "string \<Rightarrow> int \<Rightarrow> int \<Rightarrow> string" where
  "generar_numero_factura serie anio ultimo_numero =
     (let nuevo_numero = ultimo_numero + 1
      in ''F'' @ py_str_int anio @ ''-'' @ serie @ format_04d nuevo_numero)"

fun py_split :: "char \<Rightarrow> string \<Rightarrow> string list" where
  "py_split sep [] = [[]]"
| "py_split sep (c # cs) =
     (if c = sep then [] # py_split sep cs
      else (case py_split sep cs of w # ws \<Rightarrow> (c # w) # ws | [] \<Rightarrow> [[c]]))"

definition is_space :: "char \<Rightarrow> bool" where
  "is_space c = (c \<in> set [CHR '' '', CHR 0x09, CHR 0x0A, CHR 0x0B, CHR 0x0C, CHR 0x0D,
                            CHR 0x1C, CHR 0x1D, CHR 0x1E, CHR 0x1F])"

definition py_strip :: "string \<Rightarrow> string" where
  "py_strip s = rev (dropWhile is_space (rev (dropWhile is_space s)))"

fun digs :: "nat \<Rightarrow> string \<Rightarrow> nat option" where
  "digs acc [] = Some acc"
| "digs acc [c] = (if is_digit c then Some (acc * 10 + digit_val c) else None)"
| "digs acc (c # d # ds) =
     (if is_digit c then digs (acc * 10 + digit_val c) (d # ds)
      else if c = CHR ''_'' \<and> is_digit d then digs (acc * 10 + digit_val d) ds
      else None)"

definition parse_nat :: "string \<Rightarrow> nat option" where
  "parse_nat s = (case s of [] \<Rightarrow> None
                  | c # cs \<Rightarrow> if is_digit c then digs (digit_val c) cs else None)"

definition py_int :: "string \<Rightarrow> int option" where
  "py_int s =
     (case py_strip s of
        [] \<Rightarrow> None
      | c # cs \<Rightarrow>
          if c = CHR ''-'' then map_option (\<lambda>n. - int n) (parse_nat cs)
          else if c = CHR ''+'' then map_option int (parse_nat cs)
          else map_option int (parse_nat (c # cs)))"

text \<open>
  The extraction of the last number in \<open>crear_factura\<close>: the second part of the split on
  \<open>"-"\<close>, without its first character, parsed as an integer; the bare \<open>except\<close> turns
  every failure (no second part, not a number) into 0.
\<close>

definition extraer_ultimo_numero :: "string \<Rightarrow> int" where
  "extraer_ultimo_numero numero =
     (case py_split CHR ''-'' numero of
        _ # num_parte # _ \<Rightarrow> (case py_int (drop 1 num_parte) of Some k \<Rightarrow> k | None \<Rightarrow> 0)
      | _ \<Rightarrow> 0)"

text \<open>The number that a string of decimal digits denotes.\<close>

definition dec_val :: "string \<Rightarrow> nat" where
  "dec_val ds = foldl (\<lambda>a c. a * 10 + digit_val c) 0 ds"

section \<open>Documents\<close>

text \<open>
  The values of the dictionaries that the route handlers and services pass around (the
  output of \<open>model_dump\<close>, the documents of the database): \<open>None\<close>, booleans, integers,
  floats, strings, datetimes (microseconds since \<open>datetime.min\<close>), ObjectIds (their 24
  hexadecimal digits), lists and nested dictionaries. A dictionary is an association
  list in insertion order with unique keys.
\<close>

datatype pyval =
    PNone
  | PBool bool
  | PInt int
  | PFloat rat
  | PStr string
  | PDatetime int
  | PObjectId string
  | PList "pyval list"
  | PDict "(string \<times> pyval) list"

type_synonym doc = "(string \<times> pyval) list"

datatype py_error = AttributeError | KeyError | TypeError | ValidationError "string list"

text \<open>\<open>d.get(k)\<close> and \<open>d.get(k, default)\<close> on a dictionary.\<close>

definition dict_get :: "doc \<Rightarrow> string \<Rightarrow> pyval" where
  "dict_get d k = (case map_of d k of Some v \<Rightarrow> v | None \<Rightarrow> PNone)"

definition dict_get_default :: "doc \<Rightarrow> string \<Rightarrow> pyval \<Rightarrow> pyval" where
  "dict_get_default d k dflt = (case map_of d k of Some v \<Rightarrow> v | None \<Rightarrow> dflt)"

text \<open>\<open>v.get(k)\<close> on a value: only a dictionary has the method.\<close>

definition val_get :: "pyval \<Rightarrow> string \<Rightarrow> py_error + pyval" where
  "val_get v k = (case v of PDict d \<Rightarrow> Inr (dict_get d k) | _ \<Rightarrow> Inl AttributeError)"

text \<open>The truth value of a Python object, as \<open>if x\<close> and \<open>not x\<close> read it.\<close>

definition truthy :: "pyval \<Rightarrow> bool" where
  "truthy v =
     (case v of
        PNone \<Rightarrow> False
      | PBool b \<Rightarrow> b
      | PInt i \<Rightarrow> i \<noteq> 0
      | PFloat r \<Rightarrow> r \<noteq> 0
      | PStr s \<Rightarrow> s \<noteq> []
      | PDatetime _ \<Rightarrow> True
      | PObjectId _ \<Rightarrow> True
      | PList xs \<Rightarrow> xs \<noteq> []
      | PDict d \<Rightarrow> d \<noteq> [])"

section \<open>The verification hash (services/facturacion.py)\<close>

text \<open>
  \<open>generar_hash_verifactu\<close>. The library functions it calls are parameters of the
  model: \<open>py_str\<close> is \<open>str\<close>, \<open>json_dumps\<close> is \<open>json.dumps(_, sort_keys=True)\<close>, which
  raises on a value that JSON cannot carry, and \<open>sha256_hex\<close> is
  \<open>hashlib.sha256(_.encode()).hexdigest()\<close>.
\<close>

definition generar_hash_verifactu ::
  "(pyval \<Rightarrow> string) \<Rightarrow> (doc \<Rightarrow> py_error + string) \<Rightarrow> (string \<Rightarrow> string) \<Rightarrow> doc
     \<Rightarrow> py_error + string" where
  "generar_hash_verifactu py_str json_dumps sha256_hex factura_data =
     (case val_get (dict_get_default factura_data ''emisor'' (PDict [])) ''nif'' of
        Inl e \<Rightarrow> Inl e
      | Inr emisor_nif \<Rightarrow>
     (case val_get (dict_get_default factura_data ''receptor'' (PDict [])) ''nombre_completo'' of
        Inl e \<Rightarrow> Inl e
      | Inr receptor_nombre \<Rightarrow>
     (let campos_hash =
            [(''numero'', dict_get factura_data ''numero''),
             (''fecha_emision'', PStr (py_str (dict_get factura_data ''fecha_emision''))),
             (''emisor_nif'', emisor_nif),
             (''receptor_nombre'', receptor_nombre),
             (''total_factura'', PStr (py_str (dict_get factura_data ''total_factura'')))]
      in case json_dumps campos_hash of
           Inl e \<Rightarrow> Inl e
         | Inr hash_string \<Rightarrow> Inr (sha256_hex hash_string))))"

section \<open>The document database\<close>

text \<open>
  The collections that the claims touch, each a list of documents. \<open>find_one\<close> returns
  the first document that matches, \<open>update_one\<close> applies \<open>$set\<close> to the first match and
  reports \<open>matched_count\<close>, \<open>delete_one\<close> removes the first match and reports
  \<open>deleted_count\<close>. A filter \<open>{"_id": v}\<close> matches a document whose \<open>_id\<close> is the same
  value of the same type: a string never equals an ObjectId.
\<close>

record database =
  patients :: "doc list"
  facturas :: "doc list"
  appointments :: "doc list"

definition id_is :: "pyval \<Rightarrow> doc \<Rightarrow> bool" where
  "id_is v d = (map_of d ''_id'' = Some v)"

definition find_one :: "doc list \<Rightarrow> (doc \<Rightarrow> bool) \<Rightarrow> doc option" where
  "find_one coll q = find q coll"

definition set_fields :: "doc \<Rightarrow> doc \<Rightarrow> doc" where
  "set_fields upd d = foldl (\<lambda>acc (k, v). AList.update k v acc) d upd"

fun update_one :: "doc list \<Rightarrow> (doc \<Rightarrow> bool) \<Rightarrow> doc \<Rightarrow> doc list \<times> nat" where
  "update_one [] q upd = ([], 0)"
| "update_one (d # ds) q upd =
     (if q d then (set_fields upd d # ds, 1)
      else (case update_one ds q upd of (ds', n) \<Rightarrow> (d # ds', n)))"

fun delete_one :: "doc list \<Rightarrow> (doc \<Rightarrow> bool) \<Rightarrow> doc list \<times> nat" where
  "delete_one [] q = ([], 0)"
| "delete_one (d # ds) q =
     (if q d then (ds, 1) else (case delete_one ds q of (ds', n) \<Rightarrow> (d # ds', n)))"

text \<open>
  \<open>ObjectId.is_valid\<close> on a string (24 hexadecimal digits) and the conversion
  \<open>ObjectId(s)\<close>, which does not distinguish upper from lower case.
\<close>

definition is_hex :: "char \<Rightarrow> bool" where
  "is_hex c = (c \<in> set ''0123456789abcdefABCDEF'')"

definition hex_lower :: "char \<Rightarrow> char" where
  "hex_lower c =
     (if c = CHR ''A'' then CHR ''a'' else if c = CHR ''B'' then CHR ''b''
      else if c = CHR ''C'' then CHR ''c'' else if c = CHR ''D'' then CHR ''d''
      else if c = CHR ''E'' then CHR ''e'' else if c = CHR ''F'' then CHR ''f'' else c)"

definition ObjectId_is_valid :: "string \<Rightarrow> bool" where
  "ObjectId_is_valid s = (length s = 24 \<and> list_all is_hex s)"

definition ObjectId :: "string \<Rightarrow> pyval" where
  "ObjectId s = PObjectId (map hex_lower s)"

datatype detail = InvalidId | NotFound | NoData | NotEditable | InternalError

datatype http_error = HTTPException nat detail

section \<open>Analytics (services/analytics_service.py)\<close>

text \<open>
  \<open>sum\<close> over the values of a generator: it starts from the integer 0, and adding a
  value that is not a number raises \<open>TypeError\<close>.
\<close>

definition py_number :: "pyval \<Rightarrow> rat option" where
  "py_number v =
     (case v of
        PInt i \<Rightarrow> Some (of_int i)
      | PFloat r \<Rightarrow> Some r
      | PBool b \<Rightarrow> Some (if b then 1 else 0)
      | _ \<Rightarrow> None)"

fun py_sum :: "rat \<Rightarrow> pyval list \<Rightarrow> py_error + rat" where
  "py_sum acc [] = Inr acc"
| "py_sum acc (v # vs) =
     (case py_number v of None \<Rightarrow> Inl TypeError | Some r \<Rightarrow> py_sum (acc + r) vs)"

text \<open>
  The list comprehension of \<open>calculate_patient_ltv\<close>: the invoices whose
  \<open>receptor.nombre_completo\<close> equals the patient's name.
\<close>

fun facturas_con_nombre :: "pyval \<Rightarrow> doc list \<Rightarrow> py_error + doc list" where
  "facturas_con_nombre name [] = Inr []"
| "facturas_con_nombre name (f # fs) =
     (case val_get (dict_get_default f ''receptor'' (PDict [])) ''nombre_completo'' of
        Inl e \<Rightarrow> Inl e
      | Inr n \<Rightarrow>
          (case facturas_con_nombre name fs of
             Inl e \<Rightarrow> Inl e
           | Inr rest \<Rightarrow> Inr (if n = name then f # rest else rest)))"

text \<open>
  The filter of the first query: \<open>receptor.nombre_completo\<close> exists and \<open>estado\<close> is
  \<open>emitida\<close> or \<open>pagada\<close>.
\<close>

definition factura_facturada :: "doc \<Rightarrow> bool" where
  "factura_facturada f =
     ((case map_of f ''receptor'' of
         Some (PDict r) \<Rightarrow> map_of r ''nombre_completo'' \<noteq> None
       | _ \<Rightarrow> False)
      \<and> (map_of f ''estado'' = Some (PStr ''emitida'') \<or> map_of f ''estado'' = Some (PStr ''pagada'')))"

text \<open>
  \<open>AnalyticsService.calculate_patient_ltv\<close>. The patient is looked up with the string
  \<open>patient_id\<close> itself as \<open>_id\<close>.
\<close>

definition calculate_patient_ltv :: "string \<Rightarrow> database \<Rightarrow> py_error + rat" where
  "calculate_patient_ltv patient_id db =
     (let fs = filter factura_facturada (facturas db)
      in case find_one (patients db) (id_is (PStr patient_id)) of
           None \<Rightarrow> Inr 0
         | Some patient \<Rightarrow>
             if \<not> truthy (PDict patient) then Inr 0
             else (case facturas_con_nombre (dict_get patient ''name'') fs of
                     Inl e \<Rightarrow> Inl e
                   | Inr patient_facturas \<Rightarrow>
                       (case py_sum 0 (map (\<lambda>f. dict_get_default f ''total_factura'' (PInt 0))
                                         patient_facturas) of
                          Inl e \<Rightarrow> Inl e
                        | Inr ltv \<Rightarrow> Inr (py_round ltv 2))))"

subsection \<open>Churn risk\<close>








text \<open>
  What the specification sums for a patient name: the amount of an invoice and the name
  of its receiver.
\<close>

definition importe_factura :: "doc \<Rightarrow> rat" where
  "importe_factura f =
     (case py_number (dict_get_default f ''total_factura'' (PInt 0)) of
        Some r \<Rightarrow> r
      | None \<Rightarrow> 0)"

definition nombre_receptor :: "doc \<Rightarrow> pyval" where
  "nombre_receptor f =
     (case map_of f ''receptor'' of Some (PDict r) \<Rightarrow> dict_get r ''nombre_completo'' | _ \<Rightarrow> PNone)"

subsection \<open>The conversion funnel\<close>

text \<open>
  The pydantic model \<open>ConversionFunnel\<close> (models/analytics.py): every field is required.
  Constructing it from keyword arguments ignores the arguments it does not declare and
  raises \<open>ValidationError\<close>, naming the declared fields that are missing or out of
  range. Pydantic's coercions from strings and booleans are not modelled; the callers
  pass datetimes, integers and floats.
\<close>

datatype field_kind = FDatetime | FCount | FRate

definition ConversionFunnel_fields :: "(string \<times> field_kind) list" where
  "ConversionFunnel_fields =
     [(''period_start'', FDatetime), (''period_end'', FDatetime),
      (''total_inquiries'', FCount), (''scheduled_appointments'', FCount),
      (''completed_appointments'', FCount), (''evaluations_done'', FCount),
      (''quotes_sent'', FCount), (''quotes_accepted'', FCount),
      (''treatments_started'', FCount), (''treatments_completed'', FCount),
      (''inquiry_to_appointment_rate'', FRate), (''appointment_to_treatment_rate'', FRate),
      (''quote_to_treatment_rate'', FRate), (''overall_conversion_rate'', FRate)]"

definition field_ok :: "field_kind \<Rightarrow> pyval \<Rightarrow> bool" where
  "field_ok kind v =
     (case kind of
        FDatetime \<Rightarrow> (case v of PDatetime _ \<Rightarrow> True | _ \<Rightarrow> False)
      | FCount \<Rightarrow> (case v of PInt i \<Rightarrow> 0 \<le> i
                             | PFloat r \<Rightarrow> 0 \<le> r \<and> of_int \<lfloor>r\<rfloor> = r
                             | _ \<Rightarrow> False)
      | FRate \<Rightarrow> (case v of PInt i \<Rightarrow> 0 \<le> i \<and> i \<le> 100
                            | PFloat r \<Rightarrow> 0 \<le> r \<and> r \<le> 100
                            | _ \<Rightarrow> False))"

definition ConversionFunnel :: "doc \<Rightarrow> py_error + doc" where
  "ConversionFunnel kwargs =
     (let bad = map fst (filter (\<lambda>(k, kind). case map_of kwargs k of
                                                None \<Rightarrow> True
                                              | Some v \<Rightarrow> \<not> field_ok kind v)
                           ConversionFunnel_fields)
      in if bad = [] then
           Inr (map (\<lambda>(k, kind). (k, dict_get kwargs k)) ConversionFunnel_fields)
         else Inl (ValidationError bad))"

text \<open>The query \<open>{"date": {"$gte": period_start, "$lte": period_end}}\<close>.\<close>

definition en_periodo :: "int \<Rightarrow> int \<Rightarrow> doc \<Rightarrow> bool" where
  "en_periodo period_start period_end a =
     (case map_of a ''date'' of
        Some (PDatetime t) \<Rightarrow> period_start \<le> t \<and> t \<le> period_end
      | _ \<Rightarrow> False)"

text \<open>A rate \<open>(a / b * 100) if b > 0 else 0\<close> of two counts.\<close>

definition tasa :: "nat \<Rightarrow> nat \<Rightarrow> pyval" where
  "tasa a b = (if 0 < b then PFloat (of_nat a / of_nat b * 100) else PInt 0)"

text \<open>\<open>AnalyticsService.analyze_conversion_funnel\<close>.\<close>

definition analyze_conversion_funnel :: "int \<Rightarrow> int \<Rightarrow> database \<Rightarrow> py_error + doc" where
  "analyze_conversion_funnel period_start period_end db =
     (let appts = filter (en_periodo period_start period_end) (appointments db);
          total_inquiries = length appts;
          consultations = length (filter (\<lambda>a. dict_get a ''status'' = PStr ''completada'') appts);
          treatments = length (filter (\<lambda>a. truthy (dict_get a ''treatment_name'')) appts)
      in ConversionFunnel
           [(''period_start'', PDatetime period_start),
            (''period_end'', PDatetime period_end),
            (''total_inquiries'', PInt (int total_inquiries)),
            (''consultations'', PInt (int consultations)),
            (''treatments'', PInt (int treatments)),
            (''consultation_conversion_rate'', tasa consultations total_inquiries),
            (''treatment_conversion_rate'', tasa treatments consultations),
            (''overall_conversion_rate'', tasa treatments total_inquiries)])"

section \<open>Route handlers (routes/patients.py, routes/facturas.py)\<close>

text \<open>
  A handler takes the database and returns its response, an \<open>HTTPException\<close> or a
  value, together with the database it leaves behind; a handler that only reads returns
  the response alone. \<open>datetime.utcnow()\<close> is the parameter \<open>now\<close>, and the ObjectId
  that the driver gives a new document is the parameter \<open>new_id\<close>.
\<close>

definition create_patient :: "doc \<Rightarrow> int \<Rightarrow> string \<Rightarrow> database \<Rightarrow> doc option \<times> database" where
  "create_patient patient now new_id db =
     (let patient_dict = AList.update ''updated_at'' (PDatetime now)
                           (AList.update ''created_at'' (PDatetime now) patient);
          stored = AList.update ''_id'' (PObjectId new_id) patient_dict;
          db' = db\<lparr>patients := patients db @ [stored]\<rparr>
      in (find_one (patients db') (id_is (PObjectId new_id)), db'))"

definition get_patient :: "string \<Rightarrow> database \<Rightarrow> http_error + doc" where
  "get_patient patient_id db =
     (if \<not> ObjectId_is_valid patient_id then Inl (HTTPException 400 InvalidId)
      else (case find_one (patients db) (id_is (ObjectId patient_id)) of
              None \<Rightarrow> Inl (HTTPException 404 NotFound)
            | Some patient \<Rightarrow>
                if \<not> truthy (PDict patient) then Inl (HTTPException 404 NotFound)
                else Inr patient))"

text \<open>
  \<open>update_patient\<close>; \<open>patient\<close> holds the fields that the request set
  (\<open>model_dump(exclude_unset=True)\<close>).
\<close>

definition update_patient ::
  "string \<Rightarrow> doc \<Rightarrow> int \<Rightarrow> database \<Rightarrow> (http_error + doc option) \<times> database" where
  "update_patient patient_id patient now db =
     (if \<not> ObjectId_is_valid patient_id then (Inl (HTTPException 400 InvalidId), db)
      else if patient = [] then (Inl (HTTPException 400 NoData), db)
      else
        (let update_data = AList.update ''updated_at'' (PDatetime now) patient
         in case update_one (patients db) (id_is (ObjectId patient_id)) update_data of
              (coll, matched_count) \<Rightarrow>
                if matched_count = 0
                then (Inl (HTTPException 404 NotFound), db\<lparr>patients := coll\<rparr>)
                else (Inr (find_one coll (id_is (ObjectId patient_id))),
                      db\<lparr>patients := coll\<rparr>)))"

definition delete_patient :: "string \<Rightarrow> database \<Rightarrow> (http_error + unit) \<times> database" where
  "delete_patient patient_id db =
     (if \<not> ObjectId_is_valid patient_id then (Inl (HTTPException 400 InvalidId), db)
      else (case delete_one (patients db) (id_is (ObjectId patient_id)) of
              (coll, deleted_count) \<Rightarrow>
                if deleted_count = 0
                then (Inl (HTTPException 404 NotFound), db\<lparr>patients := coll\<rparr>)
                else (Inr (), db\<lparr>patients := coll\<rparr>)))"

text \<open>
  The invoice handlers build their response with the pydantic model \<open>Factura\<close>; its
  validation is the parameter \<open>Factura_valid\<close>, and a document that fails it ends in
  the handler's \<open>except Exception\<close>, a 500.
\<close>

definition obtener_factura :: "(doc \<Rightarrow> bool) \<Rightarrow> string \<Rightarrow> database \<Rightarrow> http_error + doc" where
  "obtener_factura Factura_valid factura_id db =
     (if \<not> ObjectId_is_valid factura_id then Inl (HTTPException 400 InvalidId)
      else (case find_one (facturas db) (id_is (ObjectId factura_id)) of
              None \<Rightarrow> Inl (HTTPException 404 NotFound)
            | Some factura \<Rightarrow>
                if \<not> truthy (PDict factura) then Inl (HTTPException 404 NotFound)
                else if Factura_valid factura then Inr factura
                else Inl (HTTPException 500 InternalError)))"

text \<open>
  \<open>actualizar_factura\<close>; \<open>factura_update\<close> holds the fields that the request set, of
  which those that are \<open>None\<close> are dropped.
\<close>

definition actualizar_factura ::
  "(doc \<Rightarrow> bool) \<Rightarrow> string \<Rightarrow> doc \<Rightarrow> int \<Rightarrow> database \<Rightarrow> (http_error + doc) \<times> database" where
  "actualizar_factura Factura_valid factura_id factura_update now db =
     (if \<not> ObjectId_is_valid factura_id then (Inl (HTTPException 400 InvalidId), db)
      else (case find_one (facturas db) (id_is (ObjectId factura_id)) of
              None \<Rightarrow> (Inl (HTTPException 404 NotFound), db)
            | Some factura_existente \<Rightarrow>
                if \<not> truthy (PDict factura_existente)
                then (Inl (HTTPException 404 NotFound), db)
                else if dict_get factura_existente ''estado'' = PStr ''emitida''
                      \<or> dict_get factura_existente ''estado'' = PStr ''pagada''
                then (Inl (HTTPException 400 NotEditable), db)
                else
                  (let update_data = AList.update ''updated_at'' (PDatetime now)
                                       (filter (\<lambda>(k, v). v \<noteq> PNone) factura_update);
                       coll = fst (update_one (facturas db) (id_is (ObjectId factura_id))
                                     update_data);
                       db' = db\<lparr>facturas := coll\<rparr>
                   in case find_one coll (id_is (ObjectId factura_id)) of
                        None \<Rightarrow> (Inl (HTTPException 500 InternalError), db')
                      | Some factura_actualizada \<Rightarrow>
                          if Factura_valid factura_actualizada
                          then (Inr factura_actualizada, db')
                          else (Inl (HTTPException 500 InternalError), db'))))"

definition anular_factura ::
  "string \<Rightarrow> int \<Rightarrow> database \<Rightarrow> (http_error + string) \<times> database" where
  "anular_factura factura_id now db =
     (if \<not> ObjectId_is_valid factura_id then (Inl (HTTPException 400 InvalidId), db)
      else (case find_one (facturas db) (id_is (ObjectId factura_id)) of
              None \<Rightarrow> (Inl (HTTPException 404 NotFound), db)
            | Some factura \<Rightarrow>
                if \<not> truthy (PDict factura) then (Inl (HTTPException 404 NotFound), db)
                else
                  (let coll = fst (update_one (facturas db) (id_is (ObjectId factura_id))
                                     [(''estado'', PStr ''anulada''),
                                      (''updated_at'', PDatetime now)])
                   in (Inr factura_id, db\<lparr>facturas := coll\<rparr>))))"

section \<open>A concrete database\<close>

text \<open>
  One invoice, paid, for the patient Ana Ruiz, one appointment, and the patient herself,
  stored by \<open>create_patient\<close> under the ObjectId that the driver assigned.
\<close>

definition id_paciente :: string where
  "id_paciente = ''507f1f77bcf86cd799439011''"

definition id_factura :: string where
  "id_factura = ''65a1b2c3d4e5f60718293a4b''"

definition factura_ejemplo :: doc where
  "factura_ejemplo =
     [(''_id'', PObjectId id_factura), (''numero'', PStr ''F2025-A0001''),
      (''receptor'', PDict [(''nombre_completo'', PStr ''Ana Ruiz'')]),
      (''estado'', PStr ''pagada''), (''total_factura'', PFloat (2505 / 10))]"

definition cita_ejemplo :: doc where
  "cita_ejemplo =
     [(''_id'', PObjectId ''65a1b2c3d4e5f60718293a4c''), (''patient_id'', PStr id_paciente),
      (''date'', PDatetime 500), (''status'', PStr ''completada''),
      (''treatment_name'', PStr ''Limpieza'')]"

definition db_ejemplo :: database where
  "db_ejemplo =
     snd (create_patient [(''name'', PStr ''Ana Ruiz''), (''phone'', PStr ''664123456'')] 0
            id_paciente
            \<lparr>patients = [], facturas = [factura_ejemplo], appointments = [cita_ejemplo]\<rparr>)"

section \<open>Properties of the invoice arithmetic\<close>





text \<open>
  The three totals are the rounded sums of the three columns of the lines. This half of
  C1 holds for every list of lines.
\<close>

lemma calcular_totales_factura_sums:
  "subtotal (calcular_totales_factura ls) = py_round (\<Sum>l\<leftarrow>ls. base_imponible l) 2
   \<and> total_iva (calcular_totales_factura ls) = py_round (\<Sum>l\<leftarrow>ls. cuota_iva l) 2
   \<and> total_factura (calcular_totales_factura ls) = py_round (\<Sum>l\<leftarrow>ls. total_linea l) 2"
  by (simp add: calcular_totales_factura_def)

text \<open>
  C1. The totals of an invoice should satisfy \<open>total_factura = subtotal + total_iva\<close>.
  They do not: for the single line that \<open>calcular_linea_factura\<close> returns for one unit
  at 10.07 with a 10 percent discount and 21 percent VAT, the base 9.063 rounds to 9.06,
  the VAT 1.90323 rounds to 1.90, and the total 10.96623 rounds to 10.97, one cent more
  than 9.06 + 1.90.
\<close>

theorem calcular_totales_factura_not_additive:
  "calcular_totales_factura [calcular_linea_factura ''Empaste'' 1 (1007 / 100) ''21'' 10]
     = \<lparr>subtotal = 906 / 100, total_iva = 190 / 100, total_factura = 1097 / 100\<rparr>
   \<and> total_factura
         (calcular_totales_factura [calcular_linea_factura ''Empaste'' 1 (1007 / 100) ''21'' 10])
       \<noteq> subtotal
           (calcular_totales_factura [calcular_linea_factura ''Empaste'' 1 (1007 / 100) ''21'' 10])
         + total_iva
           (calcular_totales_factura [calcular_linea_factura ''Empaste'' 1 (1007 / 100) ''21'' 10])"
  by code_simp

section \<open>Properties of the invoice numbers\<close>

lemma lt10: "d < 10 \<Longrightarrow> d \<in> {0, 1, 2, 3, 4, 5, 6, 7, 8, 9::nat}"
  by auto

lemma digit_char_props:
  assumes "d < 10"
  shows "is_digit (digit_char d)" and "digit_val (digit_char d) = d"
    and "digit_char d \<noteq> CHR ''-''" and "\<not> is_space (digit_char d)"
  using lt10 [OF assms] by (auto simp: is_digit_def digit_char_def digit_val_def is_space_def)

lemma is_digit_not_sep: "is_digit c \<Longrightarrow> c \<noteq> CHR ''-'' \<and> c \<noteq> CHR ''+'' \<and> \<not> is_space c"
  by (auto simp: is_digit_def is_space_def)

lemma digits_nat_small: "n < 10 \<Longrightarrow> digits_nat n = [digit_char n]"
  by (subst digits_nat.simps) simp

lemma digits_nat_big:
  "\<not> n < 10 \<Longrightarrow> digits_nat n = digits_nat (n div 10) @ [digit_char (n mod 10)]"
  by (subst digits_nat.simps) simp

lemma digits_nat_digits: "\<forall>c \<in> set (digits_nat n). is_digit c"
proof (induction n rule: digits_nat.induct)
  case (1 n)
  show ?case
  proof (cases "n < 10")
    case True
    then show ?thesis by (simp add: digits_nat_small digit_char_props)
  next
    case False
    with 1 have "\<forall>c \<in> set (digits_nat (n div 10)). is_digit c" by simp
    moreover have "is_digit (digit_char (n mod 10))" by (simp add: digit_char_props)
    ultimately show ?thesis using False by (auto simp: digits_nat_big)
  qed
qed

lemma digits_nat_val: "dec_val (digits_nat n) = n"
proof (induction n rule: digits_nat.induct)
  case (1 n)
  show ?case
  proof (cases "n < 10")
    case True
    then show ?thesis by (simp add: digits_nat_small dec_val_def digit_char_props)
  next
    case False
    with 1 have ih: "dec_val (digits_nat (n div 10)) = n div 10" by simp
    have "dec_val (digits_nat n) = dec_val (digits_nat (n div 10)) * 10 + n mod 10"
      using False by (simp add: digits_nat_big dec_val_def digit_char_props)
    with ih show ?thesis by simp
  qed
qed

lemma digits_nat_nonempty: "digits_nat n \<noteq> []"
  by (cases "n < 10") (simp_all add: digits_nat_small digits_nat_big)


lemma digs_all_digits:
  "\<forall>c \<in> set ds. is_digit c \<Longrightarrow>
     digs acc ds = Some (foldl (\<lambda>a c. a * 10 + digit_val c) acc ds)"
  by (induction acc ds rule: digs.induct) simp_all

lemma parse_nat_all_digits:
  assumes "ds \<noteq> []" and "\<forall>c \<in> set ds. is_digit c"
  shows "parse_nat ds = Some (dec_val ds)"
proof (cases ds)
  case Nil
  with assms show ?thesis by simp
next
  case (Cons c cs)
  with assms have "is_digit c" and "\<forall>x \<in> set cs. is_digit x" by simp_all
  then show ?thesis
    using Cons by (simp add: parse_nat_def digs_all_digits dec_val_def)
qed

lemma dropWhile_id: "xs \<noteq> [] \<Longrightarrow> \<not> P (hd xs) \<Longrightarrow> dropWhile P xs = xs"
  by (cases xs) simp_all

lemma py_strip_all_digits:
  assumes "ds \<noteq> []" and "\<forall>c \<in> set ds. is_digit c"
  shows "py_strip ds = ds"
proof -
  have a: "\<not> is_space (hd ds)"
    using assms is_digit_not_sep by (cases ds) auto
  have "last ds \<in> set ds" using assms(1) by simp
  then have b: "\<not> is_space (hd (rev ds))"
    using assms is_digit_not_sep by (simp add: hd_rev)
  have "dropWhile is_space ds = ds" using assms(1) a by (rule dropWhile_id)
  moreover have "dropWhile is_space (rev ds) = rev ds"
    using assms(1) b by (intro dropWhile_id) simp_all
  ultimately show ?thesis by (simp add: py_strip_def)
qed

lemma py_int_all_digits:
  assumes "ds \<noteq> []" and "\<forall>c \<in> set ds. is_digit c"
  shows "py_int ds = Some (int (dec_val ds))"
proof -
  obtain c cs where ds: "ds = c # cs" using assms(1) by (cases ds) auto
  with assms(2) have "is_digit c" by simp
  then have "c \<noteq> CHR ''-''" and "c \<noteq> CHR ''+''" using is_digit_not_sep by auto
  then show ?thesis
    using py_strip_all_digits [OF assms] parse_nat_all_digits [OF assms] ds
    by (simp add: py_int_def)
qed

lemma zero_is_digit: "is_digit CHR ''0''" and zero_val: "digit_val CHR ''0'' = 0"
  by (simp_all add: is_digit_def digit_val_def)

lemma dec_val_replicate:
  "foldl (\<lambda>a c. a * 10 + digit_val c) 0 (replicate k CHR ''0'') = 0"
  by (induction k) (simp_all add: zero_val)

lemma zfill_digits: "\<forall>c \<in> set ds. is_digit c \<Longrightarrow> \<forall>c \<in> set (zfill w ds). is_digit c"
  by (auto simp: zfill_def zero_is_digit)

lemma zfill_val: "dec_val (zfill w ds) = dec_val ds"
  by (simp add: zfill_def dec_val_def dec_val_replicate)

lemma zfill_nonempty: "ds \<noteq> [] \<Longrightarrow> zfill w ds \<noteq> []"
  by (simp add: zfill_def)

lemma zfill_length: "length (zfill w ds) = max w (length ds)"
  by (simp add: zfill_def)

lemma py_split_none: "sep \<notin> set s \<Longrightarrow> py_split sep s = [s]"
  by (induction s) auto

lemma py_split_first:
  "sep \<notin> set a \<Longrightarrow> py_split sep (a @ sep # b) = a # py_split sep b"
  by (induction a) auto

lemma all_digits_no_sep: "\<forall>c \<in> set ds. is_digit c \<Longrightarrow> CHR ''-'' \<notin> set ds"
  using is_digit_not_sep by blast

lemma format_04d_nonneg:
  assumes "0 \<le> i"
  shows "format_04d i = zfill 4 (digits_nat (nat i))"
  using assms by (simp add: format_04d_def)

lemma extraer_generar:
  assumes "length serie = 1" and "serie \<noteq> ''-''" and "0 \<le> anio" and "0 \<le> n"
  shows "extraer_ultimo_numero (generar_numero_factura serie anio n) = n + 1"
proof -
  obtain c where serie: "serie = [c]" using assms(1) by (cases serie) auto
  with assms(2) have c: "c \<noteq> CHR ''-''" by simp
  let ?z = "zfill 4 (digits_nat (nat (n + 1)))"
  let ?a = "CHR ''F'' # digits_nat (nat anio)"
  have zd: "\<forall>x \<in> set ?z. is_digit x" by (rule zfill_digits) (rule digits_nat_digits)
  have zn: "?z \<noteq> []" by (rule zfill_nonempty) (rule digits_nat_nonempty)
  have a: "CHR ''-'' \<notin> set ?a"
    using all_digits_no_sep [OF digits_nat_digits, of "nat anio"] by simp
  have b: "CHR ''-'' \<notin> set (c # ?z)"
    using all_digits_no_sep [OF zd] c by simp
  have gen: "generar_numero_factura serie anio n = ?a @ CHR ''-'' # (c # ?z)"
    using assms(3,4) serie by (simp add: generar_numero_factura_def py_str_int_def format_04d_def)
  have "py_split CHR ''-'' (?a @ CHR ''-'' # (c # ?z)) = [?a, c # ?z]"
    using py_split_first [OF a, of "c # ?z"] py_split_none [OF b] by simp
  moreover have "py_int ?z = Some (n + 1)"
    using py_int_all_digits [OF zn zd] assms(4) by (simp add: zfill_val digits_nat_val)
  ultimately show ?thesis
    unfolding gen by (simp add: extraer_ultimo_numero_def)
qed


text \<open>
  C2, as the claim states it, fails: for the two-letter series \<open>AB\<close> the number
  generated after 0 is \<open>F2025-AB0001\<close>, and the extraction of \<open>crear_factura\<close> drops
  only the first letter, fails to parse \<open>B0001\<close> and falls back to 0 instead of 1.
\<close>

theorem extraer_serie_larga_counterexample:
  "generar_numero_factura ''AB'' 2025 0 = ''F2025-AB0001''
   \<and> extraer_ultimo_numero (generar_numero_factura ''AB'' 2025 0) \<noteq> 0 + 1"
  by code_simp

text \<open>
  C2, amended. For a series of exactly one character other than \<open>-\<close>, a year
  \<open>anio \<ge> 0\<close> and a last number \<open>n \<ge> 0\<close>, \<open>generar_numero_factura\<close> returns \<open>F\<close>, the
  year, \<open>-\<close>, the series and \<open>n + 1\<close> padded with zeros to 4 digits; the extraction of
  \<open>crear_factura\<close> recovers exactly \<open>n + 1\<close>, so that the number generated from the
  recovered value is the one for \<open>n + 1\<close>.
\<close>

theorem generar_numero_factura_roundtrip:
  assumes "length serie = 1" and "serie \<noteq> ''-''" and "0 \<le> anio" and "0 \<le> n"
  shows "generar_numero_factura serie anio n
           = ''F'' @ digits_nat (nat anio) @ ''-'' @ serie @ zfill 4 (digits_nat (nat (n + 1)))
       \<and> extraer_ultimo_numero (generar_numero_factura serie anio n) = n + 1
       \<and> generar_numero_factura serie anio
             (extraer_ultimo_numero (generar_numero_factura serie anio n))
           = generar_numero_factura serie anio (n + 1)"
proof -
  have "generar_numero_factura serie anio n
          = ''F'' @ digits_nat (nat anio) @ ''-'' @ serie @ zfill 4 (digits_nat (nat (n + 1)))"
    using assms(3,4) by (simp add: generar_numero_factura_def py_str_int_def format_04d_def)
  moreover have "extraer_ultimo_numero (generar_numero_factura serie anio n) = n + 1"
    using assms by (rule extraer_generar)
  ultimately show ?thesis by simp
qed

theorem generar_numero_factura_roundtrip_witness:
  "length ''A'' = 1 \<and> ''A'' \<noteq> ''-'' \<and> (0::int) \<le> 2025 \<and> (0::int) \<le> 41
   \<and> generar_numero_factura ''A'' 2025 41 = ''F2025-A0042''
   \<and> extraer_ultimo_numero (generar_numero_factura ''A'' 2025 41) = 42
   \<and> generar_numero_factura ''A'' 2025
        (extraer_ultimo_numero (generar_numero_factura ''A'' 2025 41)) = ''F2025-A0043''"
proof -
  have h: "length ''A'' = 1" "''A'' \<noteq> ''-''" "(0::int) \<le> 2025" "(0::int) \<le> 41"
    by simp_all
  have g1: "generar_numero_factura ''A'' 2025 41 = ''F2025-A0042''"
    by code_simp
  have g2: "generar_numero_factura ''A'' 2025 (41 + 1) = ''F2025-A0043''"
    by code_simp
  have e: "extraer_ultimo_numero (generar_numero_factura ''A'' 2025 41) = 41 + 1"
    using generar_numero_factura_roundtrip [OF h] by blast
  show ?thesis
    using h g1 g2 e by simp
qed

section \<open>Properties of the verification hash\<close>

lemma dict_get_update_other: "k \<noteq> k' \<Longrightarrow> dict_get (AList.update k v d) k' = dict_get d k'"
  by (simp add: dict_get_def update_conv')

lemma dict_get_default_update_other:
  "k \<noteq> k' \<Longrightarrow> dict_get_default (AList.update k v d) k' x = dict_get_default d k' x"
  by (simp add: dict_get_default_def update_conv')

lemma hash_agree:
  assumes "map_of f ''numero'' = map_of g ''numero''"
    and "map_of f ''fecha_emision'' = map_of g ''fecha_emision''"
    and "map_of f ''total_factura'' = map_of g ''total_factura''"
    and "map_of f ''emisor'' = Some (PDict ef)" and "map_of g ''emisor'' = Some (PDict eg)"
    and "map_of ef ''nif'' = map_of eg ''nif''"
    and "map_of f ''receptor'' = Some (PDict rf)" and "map_of g ''receptor'' = Some (PDict rg)"
    and "map_of rf ''nombre_completo'' = map_of rg ''nombre_completo''"
  shows "generar_hash_verifactu py_str json_dumps sha256_hex f
       = generar_hash_verifactu py_str json_dumps sha256_hex g"
  using assms
  by (simp add: generar_hash_verifactu_def dict_get_def dict_get_default_def val_get_def)

lemma hash_frame:
  assumes "k \<notin> {''numero'', ''fecha_emision'', ''emisor'', ''receptor'', ''total_factura''}"
  shows "generar_hash_verifactu py_str json_dumps sha256_hex (AList.update k v f)
       = generar_hash_verifactu py_str json_dumps sha256_hex f"
proof -
  from assms have "k \<noteq> ''numero''" "k \<noteq> ''fecha_emision''" "k \<noteq> ''emisor''"
    "k \<noteq> ''receptor''" "k \<noteq> ''total_factura''" by auto
  then show ?thesis
    by (simp add: generar_hash_verifactu_def dict_get_update_other
          dict_get_default_update_other Let_def cong: sum.case_cong)
qed

text \<open>
  C4. The hash is a function of five fields only. Two invoice dictionaries (with emitter
  and receiver sub-dictionaries, as \<open>model_dump\<close> produces them) that agree on
  \<open>numero\<close>, \<open>fecha_emision\<close>, the emitter's \<open>nif\<close>, the receiver's \<open>nombre_completo\<close>
  and \<open>total_factura\<close> get the same result, whatever the other fields hold; and setting
  any top-level field other than the five keys read (\<open>lineas\<close>, \<open>subtotal\<close>, \<open>estado\<close>,
  ...) leaves the result unchanged. This holds for every \<open>str\<close>, \<open>json.dumps\<close> and
  SHA-256.
\<close>

theorem generar_hash_verifactu_core_fields:
  "(map_of f ''numero'' = map_of g ''numero''
      \<and> map_of f ''fecha_emision'' = map_of g ''fecha_emision''
      \<and> map_of f ''total_factura'' = map_of g ''total_factura''
      \<and> map_of f ''emisor'' = Some (PDict ef) \<and> map_of g ''emisor'' = Some (PDict eg)
      \<and> map_of ef ''nif'' = map_of eg ''nif''
      \<and> map_of f ''receptor'' = Some (PDict rf) \<and> map_of g ''receptor'' = Some (PDict rg)
      \<and> map_of rf ''nombre_completo'' = map_of rg ''nombre_completo''
    \<longrightarrow> generar_hash_verifactu py_str json_dumps sha256_hex f
        = generar_hash_verifactu py_str json_dumps sha256_hex g)
   \<and> (k \<notin> {''numero'', ''fecha_emision'', ''emisor'', ''receptor'', ''total_factura''}
    \<longrightarrow> generar_hash_verifactu py_str json_dumps sha256_hex (AList.update k v f)
        = generar_hash_verifactu py_str json_dumps sha256_hex f)"
  using hash_agree [of f g ef eg rf rg py_str json_dumps sha256_hex]
    hash_frame [of k py_str json_dumps sha256_hex v f]
  by blast

theorem generar_hash_verifactu_core_fields_witness:
  "generar_hash_verifactu (\<lambda>v. ''s'') (\<lambda>d. Inr (concat (map fst d))) rev
     [(''numero'', PStr ''F2025-A0001''), (''fecha_emision'', PDatetime 0),
      (''emisor'', PDict [(''nif'', PStr ''B12345678''), (''municipio'', PStr ''Madrid'')]),
      (''receptor'', PDict [(''nombre_completo'', PStr ''Ana''), (''email'', PStr ''a@x.es'')]),
      (''lineas'', PList []), (''subtotal'', PFloat 10), (''total_factura'', PFloat (121 / 10)),
      (''estado'', PStr ''borrador'')]
   = generar_hash_verifactu (\<lambda>v. ''s'') (\<lambda>d. Inr (concat (map fst d))) rev
     [(''numero'', PStr ''F2025-A0001''), (''fecha_emision'', PDatetime 0),
      (''emisor'', PDict [(''nif'', PStr ''B12345678''), (''municipio'', PStr ''Leon'')]),
      (''receptor'', PDict [(''nombre_completo'', PStr ''Ana''), (''email'', PStr ''b@y.es'')]),
      (''lineas'', PList [PNone]), (''subtotal'', PFloat 99), (''total_factura'', PFloat (121 / 10)),
      (''estado'', PStr ''emitida'')]
   \<and> generar_hash_verifactu (\<lambda>v. ''s'') (\<lambda>d. Inr (concat (map fst d))) rev
       (AList.update ''estado'' (PStr ''pagada'')
         [(''numero'', PStr ''F2025-A0001''), (''fecha_emision'', PDatetime 0),
          (''emisor'', PDict [(''nif'', PStr ''B12345678''), (''municipio'', PStr ''Madrid'')]),
          (''receptor'', PDict [(''nombre_completo'', PStr ''Ana''), (''email'', PStr ''a@x.es'')]),
          (''lineas'', PList []), (''subtotal'', PFloat 10), (''total_factura'', PFloat (121 / 10)),
          (''estado'', PStr ''borrador'')])
     = generar_hash_verifactu (\<lambda>v. ''s'') (\<lambda>d. Inr (concat (map fst d))) rev
         [(''numero'', PStr ''F2025-A0001''), (''fecha_emision'', PDatetime 0),
          (''emisor'', PDict [(''nif'', PStr ''B12345678''), (''municipio'', PStr ''Madrid'')]),
          (''receptor'', PDict [(''nombre_completo'', PStr ''Ana''), (''email'', PStr ''a@x.es'')]),
          (''lineas'', PList []), (''subtotal'', PFloat 10), (''total_factura'', PFloat (121 / 10)),
          (''estado'', PStr ''borrador'')]"
  using generar_hash_verifactu_core_fields
    [of "[(''numero'', PStr ''F2025-A0001''), (''fecha_emision'', PDatetime 0),
      (''emisor'', PDict [(''nif'', PStr ''B12345678''), (''municipio'', PStr ''Madrid'')]),
      (''receptor'', PDict [(''nombre_completo'', PStr ''Ana''), (''email'', PStr ''a@x.es'')]),
      (''lineas'', PList []), (''subtotal'', PFloat 10), (''total_factura'', PFloat (121 / 10)),
      (''estado'', PStr ''borrador'')]"
     "[(''numero'', PStr ''F2025-A0001''), (''fecha_emision'', PDatetime 0),
      (''emisor'', PDict [(''nif'', PStr ''B12345678''), (''municipio'', PStr ''Leon'')]),
      (''receptor'', PDict [(''nombre_completo'', PStr ''Ana''), (''email'', PStr ''b@y.es'')]),
      (''lineas'', PList [PNone]), (''subtotal'', PFloat 99), (''total_factura'', PFloat (121 / 10)),
      (''estado'', PStr ''emitida'')]"
     "[(''nif'', PStr ''B12345678''), (''municipio'', PStr ''Madrid'')]"
     "[(''nif'', PStr ''B12345678''), (''municipio'', PStr ''Leon'')]"
     "[(''nombre_completo'', PStr ''Ana''), (''email'', PStr ''a@x.es'')]"
     "[(''nombre_completo'', PStr ''Ana''), (''email'', PStr ''b@y.es'')]"
     "\<lambda>v. ''s''" "\<lambda>d. Inr (concat (map fst d))" rev "''estado''" "PStr ''pagada''"]
  by simp

section \<open>Properties of the churn risk\<close>






section \<open>Properties of the route handlers\<close>

lemma find_one_none: "(\<forall>d \<in> set coll. \<not> q d) \<Longrightarrow> find_one coll q = None"
  by (simp add: find_one_def find_None_iff)

lemma find_one_some: "find_one coll q = Some d \<Longrightarrow> q d \<and> d \<in> set coll"
  unfolding find_one_def by (induction coll) (auto split: if_splits)

lemma update_one_no_match: "(\<forall>d \<in> set coll. \<not> q d) \<Longrightarrow> update_one coll q upd = (coll, 0)"
  by (induction coll) simp_all

lemma delete_one_no_match: "(\<forall>d \<in> set coll. \<not> q d) \<Longrightarrow> delete_one coll q = (coll, 0)"
  by (induction coll) simp_all

lemma update_one_match:
  "find_one coll q = Some d \<Longrightarrow>
     \<exists>i < length coll. coll ! i = d \<and> update_one coll q upd = (coll[i := set_fields upd d], 1)"
proof (induction coll)
  case Nil
  then show ?case by (simp add: find_one_def)
next
  case (Cons a coll)
  show ?case
  proof (cases "q a")
    case True
    with Cons.prems have "a = d" by (simp add: find_one_def)
    with True have "(a # coll) ! 0 = d \<and> update_one (a # coll) q upd = ((a # coll)[0 := set_fields upd d], 1)"
      by simp
    then show ?thesis by blast
  next
    case False
    with Cons.prems have "find_one coll q = Some d" by (simp add: find_one_def)
    from Cons.IH [OF this] obtain i where
      i: "i < length coll" "coll ! i = d" "update_one coll q upd = (coll[i := set_fields upd d], 1)"
      by blast
    with False have "Suc i < length (a # coll) \<and> (a # coll) ! Suc i = d
        \<and> update_one (a # coll) q upd = ((a # coll)[Suc i := set_fields upd d], 1)"
      by simp
    then show ?thesis by blast
  qed
qed

lemma id_is_nonempty: "id_is v d \<Longrightarrow> truthy (PDict d)"
  by (auto simp: id_is_def truthy_def)

lemma set_fields_anular:
  "map_of (set_fields [(''estado'', a), (''updated_at'', b)] d)
     = (map_of d)(''estado'' \<mapsto> a, ''updated_at'' \<mapsto> b)"
  by (simp add: set_fields_def update_conv')


text \<open>
  C9. For every stored invoice whose \<open>estado\<close> is \<open>emitida\<close> or \<open>pagada\<close>,
  \<open>actualizar_factura\<close> rejects any update request with a 400 error and leaves the
  database, and so the stored invoice, unchanged.
\<close>

theorem actualizar_factura_emitida_rejected:
  assumes "ObjectId_is_valid factura_id"
    and "find_one (facturas db) (id_is (ObjectId factura_id)) = Some f"
    and "dict_get f ''estado'' = PStr ''emitida'' \<or> dict_get f ''estado'' = PStr ''pagada''"
  shows "actualizar_factura Factura_valid factura_id factura_update now db
       = (Inl (HTTPException 400 NotEditable), db)"
proof -
  have "truthy (PDict f)"
    using find_one_some [OF assms(2)] id_is_nonempty by blast
  then show ?thesis
    using assms by (auto simp: actualizar_factura_def)
qed

theorem actualizar_factura_emitida_rejected_witness:
  "ObjectId_is_valid id_factura
   \<and> find_one (facturas db_ejemplo) (id_is (ObjectId id_factura)) = Some factura_ejemplo
   \<and> (dict_get factura_ejemplo ''estado'' = PStr ''emitida''
        \<or> dict_get factura_ejemplo ''estado'' = PStr ''pagada'')
   \<and> actualizar_factura (\<lambda>d. True) id_factura [(''estado'', PStr ''borrador'')] 7 db_ejemplo
       = (Inl (HTTPException 400 NotEditable), db_ejemplo)"
proof -
  have h1: "ObjectId_is_valid id_factura"
    by code_simp
  have h2: "find_one (facturas db_ejemplo) (id_is (ObjectId id_factura)) = Some factura_ejemplo"
    by code_simp
  have h3: "dict_get factura_ejemplo ''estado'' = PStr ''emitida''
            \<or> dict_get factura_ejemplo ''estado'' = PStr ''pagada''"
    by code_simp
  show ?thesis
    using actualizar_factura_emitida_rejected [OF h1 h2 h3] h1 h2 h3 by blast
qed

text \<open>
  C10. For every stored invoice, \<open>anular_factura\<close> succeeds and removes nothing: the
  collection keeps its length, the targeted invoice (the one \<open>find_one\<close> returns, at some
  position \<open>i\<close>) gets \<open>estado = anulada\<close> and \<open>updated_at = now\<close> and keeps every other
  field, every other invoice is unchanged, and so are the other collections.
\<close>

theorem anular_factura_frame:
  assumes "ObjectId_is_valid factura_id"
    and "find_one (facturas db) (id_is (ObjectId factura_id)) = Some f"
  shows "\<exists>i d'. anular_factura factura_id now db = (Inr factura_id, db\<lparr>facturas := (facturas db)[i := d']\<rparr>)
           \<and> i < length (facturas db) \<and> facturas db ! i = f
           \<and> length ((facturas db)[i := d']) = length (facturas db)
           \<and> map_of d' = (map_of f)(''estado'' \<mapsto> PStr ''anulada'', ''updated_at'' \<mapsto> PDatetime now)
           \<and> (\<forall>j. j \<noteq> i \<longrightarrow> (facturas db)[i := d'] ! j = facturas db ! j)"
proof -
  let ?upd = "[(''estado'', PStr ''anulada''), (''updated_at'', PDatetime now)]"
  have t: "truthy (PDict f)"
    using find_one_some [OF assms(2)] id_is_nonempty by blast
  from update_one_match [OF assms(2), of ?upd] obtain i where
    i: "i < length (facturas db)" "facturas db ! i = f"
       "update_one (facturas db) (id_is (ObjectId factura_id)) ?upd
          = ((facturas db)[i := set_fields ?upd f], 1)"
    by blast
  have "anular_factura factura_id now db
          = (Inr factura_id, db\<lparr>facturas := (facturas db)[i := set_fields ?upd f]\<rparr>)"
    using assms t i(3) by (simp add: anular_factura_def)
  with i(1,2) show ?thesis
    using set_fields_anular [of "PStr ''anulada''" "PDatetime now" f] by (intro exI) auto
qed



theorem anular_factura_frame_witness:
  "ObjectId_is_valid id_factura
   \<and> find_one (facturas db_ejemplo) (id_is (ObjectId id_factura)) = Some factura_ejemplo
   \<and> (\<exists>i d'. anular_factura id_factura 7 db_ejemplo
                  = (Inr id_factura, db_ejemplo\<lparr>facturas := (facturas db_ejemplo)[i := d']\<rparr>)
           \<and> i < length (facturas db_ejemplo) \<and> facturas db_ejemplo ! i = factura_ejemplo
           \<and> length ((facturas db_ejemplo)[i := d']) = length (facturas db_ejemplo)
           \<and> map_of d' = (map_of factura_ejemplo)
                             (''estado'' \<mapsto> PStr ''anulada'', ''updated_at'' \<mapsto> PDatetime 7)
           \<and> (\<forall>j. j \<noteq> i \<longrightarrow> (facturas db_ejemplo)[i := d'] ! j = facturas db_ejemplo ! j))"
proof -
  have h1: "ObjectId_is_valid id_factura"
    by code_simp
  have h2: "find_one (facturas db_ejemplo) (id_is (ObjectId id_factura)) = Some factura_ejemplo"
    by code_simp
  show ?thesis
    using anular_factura_frame [OF h1 h2, of 7] h1 h2 by blast
qed

text \<open>
  C8, as the claim states it, fails for the update of a patient: with a well-formed id
  that matches no stored patient and a request that sets no field, \<open>update_patient\<close>
  answers 400 (no data to update), not 404; the check of the body comes before the
  database is consulted.
\<close>

theorem update_patient_empty_body_counterexample:
  "ObjectId_is_valid id_factura
   \<and> find_one (patients db_ejemplo) (id_is (ObjectId id_factura)) = None
   \<and> update_patient id_factura [] 7 db_ejemplo = (Inl (HTTPException 400 NoData), db_ejemplo)
   \<and> fst (update_patient id_factura [] 7 db_ejemplo) \<noteq> Inl (HTTPException 404 NotFound)"
  by code_simp

lemma invalid_id_400:
  assumes "\<not> ObjectId_is_valid i"
  shows "get_patient i db = Inl (HTTPException 400 InvalidId)"
    and "update_patient i upd now db = (Inl (HTTPException 400 InvalidId), db)"
    and "delete_patient i db = (Inl (HTTPException 400 InvalidId), db)"
    and "obtener_factura V i db = Inl (HTTPException 400 InvalidId)"
    and "actualizar_factura V i fu now db = (Inl (HTTPException 400 InvalidId), db)"
    and "anular_factura i now db = (Inl (HTTPException 400 InvalidId), db)"
  using assms
  by (simp_all add: get_patient_def update_patient_def delete_patient_def obtener_factura_def
        actualizar_factura_def anular_factura_def)

lemma patient_not_found_404:
  assumes "ObjectId_is_valid i" and "\<forall>d \<in> set (patients db). \<not> id_is (ObjectId i) d"
  shows "get_patient i db = Inl (HTTPException 404 NotFound)"
    and "upd \<noteq> [] \<Longrightarrow> update_patient i upd now db = (Inl (HTTPException 404 NotFound), db)"
    and "delete_patient i db = (Inl (HTTPException 404 NotFound), db)"
  using assms find_one_none [OF assms(2)] update_one_no_match [OF assms(2)]
    delete_one_no_match [OF assms(2)]
  by (simp_all add: get_patient_def update_patient_def delete_patient_def)

lemma factura_not_found_404:
  assumes "ObjectId_is_valid i" and "\<forall>d \<in> set (facturas db). \<not> id_is (ObjectId i) d"
  shows "obtener_factura V i db = Inl (HTTPException 404 NotFound)"
    and "actualizar_factura V i fu now db = (Inl (HTTPException 404 NotFound), db)"
    and "anular_factura i now db = (Inl (HTTPException 404 NotFound), db)"
  using assms find_one_none [OF assms(2)]
  by (simp_all add: obtener_factura_def actualizar_factura_def anular_factura_def)

text \<open>
  C8, amended. With an id \<open>b\<close> that is not a well-formed ObjectId, reading, updating and
  deleting a patient or an invoice fail with 400 and leave the database unchanged. With
  a well-formed id \<open>i\<close> that matches no stored document, reading and deleting fail with
  404, updating an invoice fails with 404, and updating a patient fails with 404 when the
  request sets at least one field; in each case the database is unchanged.
\<close>

theorem crud_not_found:
  "(\<not> ObjectId_is_valid b \<longrightarrow>
      get_patient b db = Inl (HTTPException 400 InvalidId)
      \<and> update_patient b upd now db = (Inl (HTTPException 400 InvalidId), db)
      \<and> delete_patient b db = (Inl (HTTPException 400 InvalidId), db)
      \<and> obtener_factura V b db = Inl (HTTPException 400 InvalidId)
      \<and> actualizar_factura V b fu now db = (Inl (HTTPException 400 InvalidId), db)
      \<and> anular_factura b now db = (Inl (HTTPException 400 InvalidId), db))
   \<and> (ObjectId_is_valid i \<and> (\<forall>d \<in> set (patients db). \<not> id_is (ObjectId i) d) \<longrightarrow>
      get_patient i db = Inl (HTTPException 404 NotFound)
      \<and> (upd \<noteq> [] \<longrightarrow> update_patient i upd now db = (Inl (HTTPException 404 NotFound), db))
      \<and> delete_patient i db = (Inl (HTTPException 404 NotFound), db))
   \<and> (ObjectId_is_valid i \<and> (\<forall>d \<in> set (facturas db). \<not> id_is (ObjectId i) d) \<longrightarrow>
      obtener_factura V i db = Inl (HTTPException 404 NotFound)
      \<and> actualizar_factura V i fu now db = (Inl (HTTPException 404 NotFound), db)
      \<and> anular_factura i now db = (Inl (HTTPException 404 NotFound), db))"
  by (simp add: invalid_id_400 patient_not_found_404 factura_not_found_404)

theorem crud_not_found_witness:
  "\<not> ObjectId_is_valid ''abc''
   \<and> ObjectId_is_valid ''0123456789abcdef01234567''
   \<and> find_one (patients db_ejemplo) (id_is (ObjectId ''0123456789abcdef01234567'')) = None
   \<and> find_one (facturas db_ejemplo) (id_is (ObjectId ''0123456789abcdef01234567'')) = None
   \<and> [(''phone'', PStr ''600000000'')] \<noteq> []
   \<and> get_patient ''abc'' db_ejemplo = Inl (HTTPException 400 InvalidId)
   \<and> anular_factura ''abc'' 7 db_ejemplo = (Inl (HTTPException 400 InvalidId), db_ejemplo)
   \<and> get_patient ''0123456789abcdef01234567'' db_ejemplo = Inl (HTTPException 404 NotFound)
   \<and> update_patient ''0123456789abcdef01234567'' [(''phone'', PStr ''600000000'')] 7 db_ejemplo
       = (Inl (HTTPException 404 NotFound), db_ejemplo)
   \<and> delete_patient ''0123456789abcdef01234567'' db_ejemplo
       = (Inl (HTTPException 404 NotFound), db_ejemplo)
   \<and> obtener_factura (\<lambda>d. True) ''0123456789abcdef01234567'' db_ejemplo
       = Inl (HTTPException 404 NotFound)
   \<and> actualizar_factura (\<lambda>d. True) ''0123456789abcdef01234567'' [(''notas'', PStr ''x'')] 7
         db_ejemplo
       = (Inl (HTTPException 404 NotFound), db_ejemplo)
   \<and> anular_factura ''0123456789abcdef01234567'' 7 db_ejemplo
       = (Inl (HTTPException 404 NotFound), db_ejemplo)"
proof -
  have h1: "\<not> ObjectId_is_valid ''abc''"
    by code_simp
  have h2: "ObjectId_is_valid ''0123456789abcdef01234567''"
    by code_simp
  have h3: "\<forall>d \<in> set (patients db_ejemplo). \<not> id_is (ObjectId ''0123456789abcdef01234567'') d"
    by code_simp
  have h4: "\<forall>d \<in> set (facturas db_ejemplo). \<not> id_is (ObjectId ''0123456789abcdef01234567'') d"
    by code_simp
  have h5: "[(''phone'', PStr ''600000000'')] \<noteq> []"
    by simp
  have h6: "find_one (patients db_ejemplo) (id_is (ObjectId ''0123456789abcdef01234567'')) = None"
    using h3 by (rule find_one_none)
  have h7: "find_one (facturas db_ejemplo) (id_is (ObjectId ''0123456789abcdef01234567'')) = None"
    using h4 by (rule find_one_none)
  show ?thesis
    using crud_not_found [of "''abc''" db_ejemplo "[(''phone'', PStr ''600000000'')]" 7
        "\<lambda>d. True" "[(''notas'', PStr ''x'')]" "''0123456789abcdef01234567''"]
      h1 h2 h3 h4 h5 h6 h7
    by blast
qed

section \<open>Properties of the analytics\<close>

text \<open>
  The lookup \<open>find_one({"_id": patient_id})\<close> compares the stored \<open>_id\<close> with a string.
  When no patient is stored under a string, which is so for every patient that
  \<open>create_patient\<close> stored, the result is 0 whatever the invoices are.
\<close>

lemma calculate_patient_ltv_without_string_id:
  assumes "\<forall>p \<in> set (patients db). map_of p ''_id'' \<noteq> Some (PStr patient_id)"
  shows "calculate_patient_ltv patient_id db = Inr 0"
proof -
  have "find_one (patients db) (id_is (PStr patient_id)) = None"
    using assms by (simp add: find_one_def find_None_iff id_is_def)
  then show ?thesis by (simp add: calculate_patient_ltv_def)
qed

lemma facturas_con_nombre_facturadas:
  "\<forall>f \<in> set fs. factura_facturada f \<Longrightarrow>
     facturas_con_nombre name fs = Inr (filter (\<lambda>f. nombre_receptor f = name) fs)"
proof (induction fs)
  case Nil
  then show ?case by simp
next
  case (Cons f fs)
  then have "factura_facturada f" by simp
  then obtain r where r: "map_of f ''receptor'' = Some (PDict r)"
    by (auto simp: factura_facturada_def split: option.splits pyval.splits)
  have "val_get (dict_get_default f ''receptor'' (PDict [])) ''nombre_completo''
          = Inr (nombre_receptor f)"
    using r by (simp add: val_get_def dict_get_default_def nombre_receptor_def)
  with Cons show ?case by simp
qed

lemma py_sum_numbers:
  "\<forall>f \<in> set fs. py_number (dict_get_default f ''total_factura'' (PInt 0)) \<noteq> None \<Longrightarrow>
     py_sum acc (map (\<lambda>f. dict_get_default f ''total_factura'' (PInt 0)) fs)
       = Inr (acc + (\<Sum>f\<leftarrow>fs. importe_factura f))"
proof (induction fs arbitrary: acc)
  case Nil
  then show ?case by simp
next
  case (Cons f fs)
  then obtain r where r: "py_number (dict_get_default f ''total_factura'' (PInt 0)) = Some r"
    by auto
  then have "importe_factura f = r" by (simp add: importe_factura_def)
  with Cons r show ?case by (simp add: add.assoc)
qed

text \<open>
  When the lookup does find a patient, the result is the rounded sum of \<open>total_factura\<close>
  over the invoices in state \<open>emitida\<close> or \<open>pagada\<close> whose receiver has the patient's
  name.
\<close>

lemma calculate_patient_ltv_found:
  assumes "find_one (patients db) (id_is (PStr patient_id)) = Some p"
    and "\<forall>f \<in> set (facturas db).
           py_number (dict_get_default f ''total_factura'' (PInt 0)) \<noteq> None"
  shows "calculate_patient_ltv patient_id db
       = Inr (py_round (\<Sum>f\<leftarrow>filter (\<lambda>f. nombre_receptor f = dict_get p ''name'')
                                  (filter factura_facturada (facturas db)).
                          importe_factura f) 2)"
proof -
  let ?fs = "filter factura_facturada (facturas db)"
  have "id_is (PStr patient_id) p"
    using assms(1) unfolding find_one_def by (induction "patients db") (auto simp: find_Some_iff)
  then have t: "truthy (PDict p)" by (auto simp: id_is_def truthy_def)
  have a: "facturas_con_nombre (dict_get p ''name'') ?fs
             = Inr (filter (\<lambda>f. nombre_receptor f = dict_get p ''name'') ?fs)"
    by (rule facturas_con_nombre_facturadas) simp
  have b: "py_sum 0 (map (\<lambda>f. dict_get_default f ''total_factura'' (PInt 0))
                       (filter (\<lambda>f. nombre_receptor f = dict_get p ''name'') ?fs))
             = Inr (0 + (\<Sum>f\<leftarrow>filter (\<lambda>f. nombre_receptor f = dict_get p ''name'') ?fs.
                           importe_factura f))"
    by (rule py_sum_numbers) (use assms(2) in auto)
  show ?thesis
    using assms(1) t a b by (simp add: calculate_patient_ltv_def)
qed

text \<open>
  C5. The lifetime value of a patient should be the rounded sum of \<open>total_factura\<close> over
  the patient's invoices in state \<open>emitida\<close> or \<open>pagada\<close>, and 0 only when no patient with
  that id exists. In the concrete database the patient exists under the id that
  \<open>get_patient\<close> finds, one paid invoice of 250.50 carries her name, and
  \<open>calculate_patient_ltv\<close> still returns 0: it looks the id up as a string, while the
  stored \<open>_id\<close> is an ObjectId.
\<close>

theorem calculate_patient_ltv_existing_patient_zero:
  "get_patient id_paciente db_ejemplo
     = Inr [(''name'', PStr ''Ana Ruiz''), (''phone'', PStr ''664123456''),
            (''created_at'', PDatetime 0), (''updated_at'', PDatetime 0),
            (''_id'', PObjectId id_paciente)]
   \<and> filter factura_facturada (facturas db_ejemplo) = [factura_ejemplo]
   \<and> nombre_receptor factura_ejemplo = PStr ''Ana Ruiz''
   \<and> importe_factura factura_ejemplo = 2505 / 10
   \<and> calculate_patient_ltv id_paciente db_ejemplo = Inr 0"
  by code_simp

lemma ConversionFunnel_missing:
  assumes "(k, kind) \<in> set ConversionFunnel_fields" and "map_of kwargs k = None"
  shows "\<exists>bad. ConversionFunnel kwargs = Inl (ValidationError bad) \<and> k \<in> set bad"
proof -
  let ?bad = "map fst (filter (\<lambda>(k, kind). case map_of kwargs k of
                                                None \<Rightarrow> True
                                              | Some v \<Rightarrow> \<not> field_ok kind v)
                           ConversionFunnel_fields)"
  have "k \<in> set ?bad" using assms by force
  then have "?bad \<noteq> []" by (metis empty_iff list.set(1))
  then have "ConversionFunnel kwargs = Inl (ValidationError ?bad)"
    unfolding ConversionFunnel_def Let_def by (simp only: if_False)
  with \<open>k \<in> set ?bad\<close> show ?thesis by blast
qed

text \<open>
  \<open>analyze_conversion_funnel\<close> never returns a funnel: whatever the period and the
  database, the keyword arguments it passes lack \<open>scheduled_appointments\<close> (and nine
  more required fields), so the construction of \<open>ConversionFunnel\<close> raises.
\<close>

lemma analyze_conversion_funnel_never_returns:
  "\<exists>bad. analyze_conversion_funnel period_start period_end db = Inl (ValidationError bad)
          \<and> ''scheduled_appointments'' \<in> set bad"
proof -
  have "(''scheduled_appointments'', FCount) \<in> set ConversionFunnel_fields"
    by (simp add: ConversionFunnel_fields_def)
  then show ?thesis
    unfolding analyze_conversion_funnel_def Let_def
    by (rule ConversionFunnel_missing) simp
qed

text \<open>
  C7. The conversion-funnel computation should be total and return the counts with
  their stage-to-stage rates. On the concrete database, for the period from 0 to 1000,
  \<open>analyze_conversion_funnel\<close> raises \<open>ValidationError\<close> instead: ten required fields of
  \<open>ConversionFunnel\<close> are missing from the keyword arguments.
\<close>

theorem analyze_conversion_funnel_validation_error:
  "analyze_conversion_funnel 0 1000 db_ejemplo
     = Inl (ValidationError
         [''scheduled_appointments'', ''completed_appointments'',
          ''evaluations_done'', ''quotes_sent'', ''quotes_accepted'',
          ''treatments_started'', ''treatments_completed'',
          ''inquiry_to_appointment_rate'', ''appointment_to_treatment_rate'',
          ''quote_to_treatment_rate''])"
  by code_simp

text \<open>The rates themselves never divide by zero: an empty predecessor stage gives 0.\<close>

lemma tasa_zero: "tasa a 0 = PInt 0"
  by (simp add: tasa_def)

lemma tasa_pos: "0 < b \<Longrightarrow> tasa a b = PFloat (of_nat a / of_nat b * 100)"
  by (simp add: tasa_def)

end
